theory Spec2Isabelle
  imports Complex_Main "HOL-Library.Sublist"
begin

section \<open>Conventions of the embedding\<close>

text \<open>
  The scene is written in TypeScript on top of three.js and react-three-fiber.
  JavaScript numbers and GLSL floats are embedded as \<^typ>\<open>real\<close>: arithmetic is
  exact, rounding is not modelled.  Loop counters and item ids are \<^typ>\<open>nat\<close>,
  converted with \<^term>\<open>real\<close> where the source mixes them with fractions.

  A value of type \<open>string | null\<close> is a \<^typ>\<open>string option\<close>.  The source
  tests such values with \<open>!!v\<close>, which is false for \<open>null\<close> and for the empty
  string and true for every other string.
\<close>

fun truthy :: "string option \<Rightarrow> bool" where
  "truthy None = False"
| "truthy (Some s) = (s \<noteq> [])"

section \<open>Mode derivation (Experience)\<close>

text \<open>
  Modelled from the spec: the enum \<open>TreeMode\<close> is imported from \<open>../types\<close>,
  which is not among the sources; the spec names its two values.
\<close>

datatype TreeMode = FORMATION | CHAOS

text \<open>
  \<^verbatim>\<open>const isDetailView = !!selectedPhoto;\<close>
  \<^verbatim>\<open>const effectiveMode = isDetailView ? TreeMode.CHAOS : mode;\<close>
\<close>

definition isDetailView :: "string option \<Rightarrow> bool" where
  "isDetailView selectedPhoto = truthy selectedPhoto"

definition effectiveMode :: "TreeMode \<Rightarrow> string option \<Rightarrow> TreeMode" where
  "effectiveMode mode selectedPhoto =
     (if isDetailView selectedPhoto then CHAOS else mode)"

section \<open>The engine interface (three.js)\<close>

text \<open>
  \<open>THREE.Vector3\<close> and \<open>THREE.Quaternion\<close> are plain number tuples.  The
  component-wise methods of \<open>Vector3\<close> that the scene calls are written out:
  \<open>add\<close>, \<open>multiplyScalar\<close> and \<open>lerp\<close>, which three.js implements as
  \<open>this.x += (v.x - this.x) * alpha\<close> for each component, with no clamping
  of \<open>alpha\<close>.
\<close>

datatype Vector3 = Vector3 (vx: real) (vy: real) (vz: real)

datatype Quaternion = Quaternion (qx: real) (qy: real) (qz: real) (qw: real)

type_synonym Matrix4 = "real list"

definition add :: "Vector3 \<Rightarrow> Vector3 \<Rightarrow> Vector3" where
  "add a b = Vector3 (vx a + vx b) (vy a + vy b) (vz a + vz b)"

definition multiplyScalar :: "Vector3 \<Rightarrow> real \<Rightarrow> Vector3" where
  "multiplyScalar a k = Vector3 (vx a * k) (vy a * k) (vz a * k)"

definition lerp :: "Vector3 \<Rightarrow> Vector3 \<Rightarrow> real \<Rightarrow> Vector3" where
  "lerp a v alpha =
     Vector3 (vx a + (vx v - vx a) * alpha)
             (vy a + (vy v - vy a) * alpha)
             (vz a + (vz v - vz a) * alpha)"

text \<open>
  The orientation and matrix primitives of the engine are not part of the
  repository.  The model takes them as a parameter: a record of the functions the
  scene calls.  \<open>lookAt eng p t\<close> is the quaternion of a fresh \<open>Object3D\<close>
  placed at \<open>p\<close> after \<open>lookAt(t)\<close>; \<open>worldToLocal eng m\<close> is
  \<open>worldToLocal\<close> of a node whose world matrix is \<open>m\<close>.
\<close>

record three =
  applyQuaternion :: "Vector3 \<Rightarrow> Quaternion \<Rightarrow> Vector3"
  applyMatrix4 :: "Vector3 \<Rightarrow> Matrix4 \<Rightarrow> Vector3"
  worldToLocal :: "Matrix4 \<Rightarrow> Vector3 \<Rightarrow> Vector3"
  lookAt :: "Vector3 \<Rightarrow> Vector3 \<Rightarrow> Quaternion"
  rotateY :: "Quaternion \<Rightarrow> real \<Rightarrow> Quaternion"
  slerp :: "Quaternion \<Rightarrow> Quaternion \<Rightarrow> real \<Rightarrow> Quaternion"

record Camera =
  camera_position :: Vector3
  camera_quaternion :: Quaternion
  matrixWorld :: Matrix4
  fov :: real

record RootState =
  clock_elapsedTime :: real
  camera :: Camera

text \<open>The scene-graph node behind \<open>groupRef.current\<close>; its parent, when it has
  one, is represented by the parent's world matrix.\<close>

record Group =
  position :: Vector3
  quaternion :: Quaternion
  scale :: Vector3
  parent :: "Matrix4 option"

section \<open>Polaroids: the item set\<close>

record PhotoData =
  id_photo :: nat
  url :: string
  tapePos :: Vector3
  scatterPos :: Vector3
  screenPos :: Vector3
  detailBackPos :: Vector3
  speed :: real

text \<open>
  \<open>Math.random()\<close> is a stream of draws \<open>rnd 0, rnd 1, \<dots>\<close>; the index of the
  next draw is threaded through the loop.  One iteration of the \<open>for\<close> loop of
  \<open>photoData\<close> makes six draws, in the order of the source.
\<close>

definition photoItem :: "(nat \<Rightarrow> real) \<Rightarrow> nat \<Rightarrow> string list \<Rightarrow> nat \<Rightarrow> nat \<Rightarrow> PhotoData" where
  "photoItem rnd k uploadedPhotos count i =
     (let yNorm = real i / real count;
          y = 3 + yNorm * 6;
          treeHeight = 12;
          treeMaxRadius = 5;
          treeRadiusAtY = treeMaxRadius * (1 - y / treeHeight);
          r = treeRadiusAtY + 0.6;
          theta = real i * 2.5;
          tapePos = Vector3 (r * cos theta) y (r * sin theta);
          dist = 6 + rnd k * 4;
          visibleHeight = 2 * dist * 0.41;
          visibleWidth = visibleHeight * 1.6;
          sx = (rnd (k + 1) - 0.5) * visibleWidth * 0.8;
          sy = (rnd (k + 2) - 0.5) * visibleHeight * 0.8;
          sz = - dist;
          screenPos = Vector3 sx sy sz;
          bx = (rnd (k + 3) - 0.5) * 25;
          by = rnd (k + 4) * 10;
          bz = - 5 - rnd (k + 5) * 10;
          detailBackPos = Vector3 bx by bz
      in \<lparr> id_photo = i, url = uploadedPhotos ! i, tapePos = tapePos,
           scatterPos = Vector3 0 0 0, screenPos = screenPos,
           detailBackPos = detailBackPos, speed = 1 \<rparr>)"

text \<open>
  The \<open>for\<close> loop.  The loop body is an argument, so that the two copies of the
  component (below) share the loop; \<open>data.push\<close> appends at the end.
\<close>

function photoData_loop ::
  "(nat \<Rightarrow> string list \<Rightarrow> nat \<Rightarrow> nat \<Rightarrow> PhotoData) \<Rightarrow> string list \<Rightarrow> nat \<Rightarrow> nat \<Rightarrow> nat
     \<Rightarrow> PhotoData list \<Rightarrow> PhotoData list" where
  "photoData_loop body uploadedPhotos count i k data =
     (if i < count
      then photoData_loop body uploadedPhotos count (i + 1) (k + 6)
             (data @ [body k uploadedPhotos count i])
      else data)"
  by pat_completeness auto
termination
  by (relation "measure (\<lambda>(body, uploadedPhotos, count, i, k, data). count - i)") auto

declare photoData_loop.simps [simp del]

definition photoData :: "(nat \<Rightarrow> real) \<Rightarrow> string list \<Rightarrow> PhotoData list" where
  "photoData rnd uploadedPhotos =
     (if length uploadedPhotos = 0 then []
      else photoData_loop (photoItem rnd) uploadedPhotos (length uploadedPhotos) 0 0 [])"

text \<open>
  A second, older copy of the component is appended to \<open>Experience.tsx\<close>.  Its
  generator differs from the one above in the spiral radius only:
  \<^verbatim>\<open>const r = 5.5 * (1 - yNorm * 0.5);\<close>
\<close>

definition photoItem_legacy :: "(nat \<Rightarrow> real) \<Rightarrow> nat \<Rightarrow> string list \<Rightarrow> nat \<Rightarrow> nat \<Rightarrow> PhotoData" where
  "photoItem_legacy rnd k uploadedPhotos count i =
     (let yNorm = real i / real count;
          y = 3 + yNorm * 6;
          r = 5.5 * (1 - yNorm * 0.5);
          theta = real i * 2.5;
          tapePos = Vector3 (r * cos theta) y (r * sin theta);
          dist = 6 + rnd k * 4;
          visibleHeight = 2 * dist * 0.41;
          visibleWidth = visibleHeight * 1.6;
          sx = (rnd (k + 1) - 0.5) * visibleWidth * 0.8;
          sy = (rnd (k + 2) - 0.5) * visibleHeight * 0.8;
          sz = - dist;
          screenPos = Vector3 sx sy sz;
          bx = (rnd (k + 3) - 0.5) * 25;
          by = rnd (k + 4) * 10;
          bz = - 5 - rnd (k + 5) * 10;
          detailBackPos = Vector3 bx by bz
      in \<lparr> id_photo = i, url = uploadedPhotos ! i, tapePos = tapePos,
           scatterPos = Vector3 0 0 0, screenPos = screenPos,
           detailBackPos = detailBackPos, speed = 1 \<rparr>)"

definition photoData_legacy :: "(nat \<Rightarrow> real) \<Rightarrow> string list \<Rightarrow> PhotoData list" where
  "photoData_legacy rnd uploadedPhotos =
     (if length uploadedPhotos = 0 then []
      else photoData_loop (photoItem_legacy rnd) uploadedPhotos (length uploadedPhotos) 0 0 [])"

section \<open>PolaroidItem: the per-frame callback\<close>

text \<open>
  \<^verbatim>\<open>const isSelected = selectedPhoto === data.url;\<close>
  \<^verbatim>\<open>const isDetailMode = !!selectedPhoto;\<close>
\<close>

definition isSelected :: "string option \<Rightarrow> PhotoData \<Rightarrow> bool" where
  "isSelected selectedPhoto data = (selectedPhoto = Some (url data))"

definition isDetailMode :: "string option \<Rightarrow> bool" where
  "isDetailMode selectedPhoto = truthy selectedPhoto"

text \<open>The frame of the polaroid: the photo is one unit wide, \<open>aspectRatio\<close> is
  component state (initially 1, set to width / height of the loaded image).  The
  theorems about the frame assume it positive: for \<open>aspectRatio = 0\<close> the
  source divides by zero, which gives \<open>Infinity\<close> in JavaScript and 0 here.\<close>

definition photoWidth :: real where
  "photoWidth = 1.0"

definition photoHeight :: "real \<Rightarrow> real" where
  "photoHeight aspectRatio = photoWidth / aspectRatio"

definition frameHeight :: "real \<Rightarrow> real" where
  "frameHeight aspectRatio = photoHeight aspectRatio + 0.4"

definition cameraForward :: "three \<Rightarrow> Camera \<Rightarrow> Vector3" where
  "cameraForward eng cam = applyQuaternion eng (Vector3 0 0 (- 1)) (camera_quaternion cam)"

definition cameraRight :: "three \<Rightarrow> Camera \<Rightarrow> Vector3" where
  "cameraRight eng cam = applyQuaternion eng (Vector3 1 0 0) (camera_quaternion cam)"

definition cameraUp :: "three \<Rightarrow> Camera \<Rightarrow> Vector3" where
  "cameraUp eng cam = applyQuaternion eng (Vector3 0 1 0) (camera_quaternion cam)"

text \<open>
  \<^verbatim>\<open>if (groupRef.current.parent) targetPos = parent.worldToLocal(p.clone());\<close>
  \<^verbatim>\<open>else targetPos.copy(p);\<close>
\<close>

definition toParentSpace :: "three \<Rightarrow> Group \<Rightarrow> Vector3 \<Rightarrow> Vector3" where
  "toParentSpace eng g p =
     (case parent g of Some m \<Rightarrow> worldToLocal eng m p | None \<Rightarrow> p)"

text \<open>Branch 1 of the callback, \<open>if (isSelected)\<close>.\<close>

definition selectedTarget ::
  "three \<Rightarrow> real \<Rightarrow> Group \<Rightarrow> RootState \<Rightarrow> Vector3 \<times> Quaternion \<times> Vector3" where
  "selectedTarget eng aspectRatio g state =
     (let distance = 5;
          worldPos = add (camera_position (camera state))
                         (multiplyScalar (cameraForward eng (camera state)) distance);
          targetPos = toParentSpace eng g worldPos;
          targetRot = lookAt eng worldPos (camera_position (camera state));
          visibleHeight = 2 * tan ((fov (camera state) * pi) / 360) * distance;
          scaleFactor = (visibleHeight * 0.7) / frameHeight aspectRatio
      in (targetPos, targetRot, Vector3 scaleFactor scaleFactor scaleFactor))"

text \<open>The keep-clear rule of branch 2:
  \<^verbatim>\<open>if (Math.abs(x) < 4) x = x > 0 ? 4 : -4;\<close>\<close>

definition keepClear :: "real \<Rightarrow> real" where
  "keepClear rX = (if \<bar>rX\<bar> < 4 then (if rX > 0 then 4 else - 4) else rX)"

text \<open>Branch 2, \<open>else if (isDetailMode)\<close>: the photos that are not selected.\<close>

definition backgroundTarget ::
  "three \<Rightarrow> PhotoData \<Rightarrow> Group \<Rightarrow> RootState \<Rightarrow> Vector3 \<times> Quaternion \<times> Vector3" where
  "backgroundTarget eng data g state =
     (let distance = 25;
          worldCenter = add (camera_position (camera state))
                            (multiplyScalar (cameraForward eng (camera state)) distance);
          spreadX = 20;
          spreadY = 12;
          seed = real (id_photo data) * 13.0;
          rX = sin seed * spreadX;
          rY = cos (seed * 1.5) * spreadY;
          x = keepClear rX;
          y = rY;
          pos = add (add worldCenter (multiplyScalar (cameraRight eng (camera state)) x))
                    (multiplyScalar (cameraUp eng (camera state)) y);
          targetPos = toParentSpace eng g pos;
          targetRot = lookAt eng pos (camera_position (camera state))
      in (targetPos, targetRot, Vector3 0.5 0.5 0.5))"

text \<open>Branch 3, \<open>else if (isFullScreen)\<close>.\<close>

definition fullScreenTarget ::
  "three \<Rightarrow> PhotoData \<Rightarrow> Group \<Rightarrow> RootState \<Rightarrow> Vector3 \<times> Quaternion \<times> Vector3" where
  "fullScreenTarget eng data g state =
     (let time = clock_elapsedTime state;
          worldPos = applyMatrix4 eng (screenPos data) (matrixWorld (camera state));
          targetPos = toParentSpace eng g worldPos;
          targetRot = lookAt eng worldPos (camera_position (camera state));
          wobbleX = sin (time * 1.5 + real (id_photo data)) * 0.1;
          wobbleY = cos (time * 1.0 + real (id_photo data)) * 0.1
      in (Vector3 (vx targetPos + wobbleX) (vy targetPos + wobbleY) (vz targetPos),
          targetRot, Vector3 1 1 1))"

text \<open>Branch 4, \<open>else\<close>: the spiral on the tree.\<close>

definition formationTarget ::
  "three \<Rightarrow> PhotoData \<Rightarrow> RootState \<Rightarrow> Vector3 \<times> Quaternion \<times> Vector3" where
  "formationTarget eng data state =
     (let time = clock_elapsedTime state;
          cycleSpeed = 0.2;
          angleOffset = time * cycleSpeed;
          x = vx (tapePos data) * cos angleOffset - vz (tapePos data) * sin angleOffset;
          z = vx (tapePos data) * sin angleOffset + vz (tapePos data) * cos angleOffset;
          targetPos = Vector3 x (vy (tapePos data)) z;
          targetRot = rotateY eng (lookAt eng targetPos (Vector3 0 (vy targetPos) 0)) pi
      in (targetPos, targetRot, Vector3 1 1 1))"

text \<open>The target pose: the four branches in the order of the source.\<close>

definition targetPose ::
  "three \<Rightarrow> PhotoData \<Rightarrow> bool \<Rightarrow> string option \<Rightarrow> real \<Rightarrow> Group \<Rightarrow> RootState
     \<Rightarrow> Vector3 \<times> Quaternion \<times> Vector3" where
  "targetPose eng data isFullScreen selectedPhoto aspectRatio g state =
     (if isSelected selectedPhoto data then selectedTarget eng aspectRatio g state
      else if isDetailMode selectedPhoto then backgroundTarget eng data g state
      else if isFullScreen then fullScreenTarget eng data g state
      else formationTarget eng data state)"

text \<open>\<^verbatim>\<open>const lerpSpeed = isDetailMode || isFullScreen ? 8 : 2;\<close>\<close>

definition lerpSpeed :: "bool \<Rightarrow> string option \<Rightarrow> real" where
  "lerpSpeed isFullScreen selectedPhoto =
     (if isDetailMode selectedPhoto \<or> isFullScreen then 8 else 2)"

text \<open>
  The callback passed to \<open>useFrame\<close>.  It returns at once when
  \<open>groupRef.current\<close> is null; otherwise it moves the node towards the target.
\<close>

definition useFrame ::
  "three \<Rightarrow> PhotoData \<Rightarrow> bool \<Rightarrow> string option \<Rightarrow> real \<Rightarrow> Group option \<Rightarrow> RootState \<Rightarrow> real
     \<Rightarrow> Group option" where
  "useFrame eng data isFullScreen selectedPhoto aspectRatio groupRef state delta =
     (case groupRef of
        None \<Rightarrow> None
      | Some g \<Rightarrow>
          (case targetPose eng data isFullScreen selectedPhoto aspectRatio g state of
             (targetPos, targetRot, targetScale) \<Rightarrow>
               Some (g\<lparr> position := lerp (position g) targetPos
                                        (delta * lerpSpeed isFullScreen selectedPhoto),
                        quaternion := slerp eng (quaternion g) targetRot
                                        (delta * lerpSpeed isFullScreen selectedPhoto),
                        scale := lerp (scale g) targetScale
                                        (delta * lerpSpeed isFullScreen selectedPhoto) \<rparr>)))"

text \<open>
  The older copy of the callback (appended to \<open>Experience.tsx\<close>) has no target
  scale and never writes the node's scale; its branch 2 uses the random
  \<open>detailBackPos\<close> of the item and turns the photo's back to the camera.
  Branches 3 and 4 and the interpolation of position and rotation are the same.
\<close>

definition targetPose_legacy ::
  "three \<Rightarrow> PhotoData \<Rightarrow> bool \<Rightarrow> string option \<Rightarrow> Group \<Rightarrow> RootState
     \<Rightarrow> Vector3 \<times> Quaternion" where
  "targetPose_legacy eng data isFullScreen selectedPhoto g state =
     (if isSelected selectedPhoto data then
        (let worldPos = add (camera_position (camera state))
                            (multiplyScalar (cameraForward eng (camera state)) 5)
         in (toParentSpace eng g worldPos,
             lookAt eng worldPos (camera_position (camera state))))
      else if isDetailMode selectedPhoto then
        (detailBackPos data,
         rotateY eng (lookAt eng (detailBackPos data) (camera_position (camera state))) pi)
      else if isFullScreen then
        (case fullScreenTarget eng data g state of (p, q, s) \<Rightarrow> (p, q))
      else
        (case formationTarget eng data state of (p, q, s) \<Rightarrow> (p, q)))"

definition useFrame_legacy ::
  "three \<Rightarrow> PhotoData \<Rightarrow> bool \<Rightarrow> string option \<Rightarrow> Group option \<Rightarrow> RootState \<Rightarrow> real
     \<Rightarrow> Group option" where
  "useFrame_legacy eng data isFullScreen selectedPhoto groupRef state delta =
     (case groupRef of
        None \<Rightarrow> None
      | Some g \<Rightarrow>
          (case targetPose_legacy eng data isFullScreen selectedPhoto g state of
             (targetPos, targetRot) \<Rightarrow>
               Some (g\<lparr> position := lerp (position g) targetPos
                                        (delta * lerpSpeed isFullScreen selectedPhoto),
                        quaternion := slerp eng (quaternion g) targetRot
                                        (delta * lerpSpeed isFullScreen selectedPhoto) \<rparr>)))"

subsection \<open>Sequences of frames\<close>

text \<open>The render loop calls the callback once per frame, with the frame's state
  and the time elapsed since the previous frame.\<close>

fun runFrames ::
  "three \<Rightarrow> PhotoData \<Rightarrow> bool \<Rightarrow> string option \<Rightarrow> real \<Rightarrow> Group option
     \<Rightarrow> (RootState \<times> real) list \<Rightarrow> Group option" where
  "runFrames eng data isFullScreen selectedPhoto aspectRatio groupRef [] = groupRef"
| "runFrames eng data isFullScreen selectedPhoto aspectRatio groupRef ((state, delta) # frames) =
     runFrames eng data isFullScreen selectedPhoto aspectRatio
       (useFrame eng data isFullScreen selectedPhoto aspectRatio groupRef state delta) frames"

text \<open>\<open>Vector3.distanceTo\<close>, the Euclidean distance.\<close>

definition distanceTo :: "Vector3 \<Rightarrow> Vector3 \<Rightarrow> real" where
  "distanceTo a b = sqrt ((vx a - vx b)\<^sup>2 + (vy a - vy b)\<^sup>2 + (vz a - vz b)\<^sup>2)"

subsection \<open>A fixed scene for evaluation\<close>

text \<open>
  To evaluate the callback at concrete inputs the engine parameter has to be
  instantiated.  \<open>still_engine\<close> is the simplest instance: a scene in which no
  orientation ever differs from the identity and no node is displaced, so
  rotating a vector and changing coordinate frames do nothing.  The camera
  \<open>still_camera\<close> sits at \<open>(0, 0, 10)\<close> with a field of view of 90 degrees.
\<close>

definition still_engine :: three where
  "still_engine =
     \<lparr> applyQuaternion = (\<lambda>v q. v),
       applyMatrix4 = (\<lambda>v m. v),
       worldToLocal = (\<lambda>m v. v),
       lookAt = (\<lambda>p t. Quaternion 0 0 0 1),
       rotateY = (\<lambda>q a. q),
       slerp = (\<lambda>q r t. r) \<rparr>"

definition still_camera :: Camera where
  "still_camera =
     \<lparr> camera_position = Vector3 0 0 10,
       camera_quaternion = Quaternion 0 0 0 1,
       matrixWorld = [1, 0, 0, 0,  0, 1, 0, 0,  0, 0, 1, 0,  0, 0, 10, 1],
       fov = 90 \<rparr>"

definition still_state :: "real \<Rightarrow> RootState" where
  "still_state t = \<lparr> clock_elapsedTime = t, camera = still_camera \<rparr>"

definition origin_group :: Group where
  "origin_group =
     \<lparr> position = Vector3 0 0 0, quaternion = Quaternion 0 0 0 1,
       scale = Vector3 1 1 1, parent = None \<rparr>"

text \<open>
  A second scene, in which the camera is turned and the node has a parent.
  \<open>turning_engine\<close> rotates a vector by a unit quaternion \<open>q\<close> as three.js does
  (\<open>v + q.w * t + q.xyz \<times> t\<close> with \<open>t = 2 * (q.xyz \<times> v)\<close>) and converts
  between frames of nodes that are only displaced: \<open>worldToLocal\<close> subtracts the
  translation held in entries 12 to 14 of the world matrix.  Its other
  primitives are those of \<open>still_engine\<close>.  \<open>turned_camera\<close> sits at
  \<open>(0, 0, 10)\<close>, turned by half a turn about the vertical, so that it looks
  along \<open>+z\<close>; \<open>hanging_group\<close> is a node at the origin of the group that
  \<open>Experience\<close> places at \<open>(0, -5, 0)\<close>.
\<close>

definition rotate_by :: "Vector3 \<Rightarrow> Quaternion \<Rightarrow> Vector3" where
  "rotate_by v q =
     (let tx = 2 * (qy q * vz v - qz q * vy v);
          ty = 2 * (qz q * vx v - qx q * vz v);
          tz = 2 * (qx q * vy v - qy q * vx v)
      in Vector3 (vx v + qw q * tx + qy q * tz - qz q * ty)
                 (vy v + qw q * ty + qz q * tx - qx q * tz)
                 (vz v + qw q * tz + qx q * ty - qy q * tx))"

definition turning_engine :: three where
  "turning_engine =
     \<lparr> applyQuaternion = rotate_by,
       applyMatrix4 = (\<lambda>v m. Vector3 (vx v + m ! 12) (vy v + m ! 13) (vz v + m ! 14)),
       worldToLocal = (\<lambda>m v. Vector3 (vx v - m ! 12) (vy v - m ! 13) (vz v - m ! 14)),
       lookAt = (\<lambda>p t. Quaternion 0 0 0 1),
       rotateY = (\<lambda>q a. q),
       slerp = (\<lambda>q r t. r) \<rparr>"

definition turned_camera :: Camera where
  "turned_camera =
     \<lparr> camera_position = Vector3 0 0 10,
       camera_quaternion = Quaternion 0 1 0 0,
       matrixWorld = [- 1, 0, 0, 0,  0, 1, 0, 0,  0, 0, - 1, 0,  0, 0, 10, 1],
       fov = 90 \<rparr>"

definition turned_state :: "real \<Rightarrow> RootState" where
  "turned_state t = \<lparr> clock_elapsedTime = t, camera = turned_camera \<rparr>"

definition hanging_group :: Group where
  "hanging_group =
     \<lparr> position = Vector3 0 0 0, quaternion = Quaternion 0 0 0 1,
       scale = Vector3 1 1 1,
       parent = Some [1, 0, 0, 0,  0, 1, 0, 0,  0, 0, 1, 0,  0, - 5, 0, 1] \<rparr>"

subsection \<open>Pointer events\<close>

text \<open>
  \<^verbatim>\<open>const handleClick = (e) => { e.stopPropagation();\<close>
  \<^verbatim>\<open>  if (!isDetailMode) { onPhotoClick(data.url); } };\<close>
  The handler touches nothing but the event and the callback, so it is modelled by
  the list of calls it makes, in order.  It is the same in both copies.
\<close>

datatype call = StopPropagation | OnPhotoClick string

definition handleClick :: "PhotoData \<Rightarrow> string option \<Rightarrow> call list" where
  "handleClick data selectedPhoto =
     StopPropagation # (if \<not> isDetailMode selectedPhoto then [OnPhotoClick (url data)] else [])"

section \<open>UIOverlay: photo upload\<close>

text \<open>
  A \<open>File\<close> is its MIME type together with the outcome of
  \<open>FileReader.readAsDataURL\<close>: \<open>Some r\<close> when the reader fires \<open>onload\<close> with
  result \<open>r\<close>, \<open>None\<close> when it does not (a read error).  The promise made for a
  file resolves only when \<open>onload\<close> fires with a truthy result.
\<close>

record File =
  file_type :: string
  readAsDataURL :: "string option"

definition startsWith :: "string \<Rightarrow> string \<Rightarrow> bool" where
  "startsWith s p = prefix p s"

abbreviation isImage :: "File \<Rightarrow> bool" where
  "isImage file \<equiv> startsWith (file_type file) ''image/''"

text \<open>The \<open>for\<close> loop over the file list: the promises pushed to \<open>readers\<close>, each
  represented by the value it resolves to, or \<open>None\<close> if it stays pending.\<close>

fun readers :: "File list \<Rightarrow> string option list" where
  "readers [] = []"
| "readers (file # files) =
     (if \<not> isImage file then readers files
      else (if truthy (readAsDataURL file) then readAsDataURL file else None) # readers files)"

text \<open>\<open>Promise.all\<close> resolves, with the values in the order of the promises, once
  every promise has resolved, and stays pending otherwise.\<close>

fun promise_all :: "'a option list \<Rightarrow> 'a list option" where
  "promise_all [] = Some []"
| "promise_all (None # ps) = None"
| "promise_all (Some v # ps) =
     (case promise_all ps of None \<Rightarrow> None | Some vs \<Rightarrow> Some (v # vs))"

text \<open>
  \<open>handleFileChange\<close>: the argument is \<open>e.target.files\<close> (\<open>None\<close> for null); the
  result is the argument of the one call of \<open>onPhotosUpload\<close>, or \<open>None\<close> when the
  handler never calls it.
\<close>

definition handleFileChange :: "File list option \<Rightarrow> string list option" where
  "handleFileChange files =
     (case files of
        None \<Rightarrow> None
      | Some fs \<Rightarrow> if length fs = 0 then None else promise_all (readers fs))"

section \<open>Snow: the vertex shader\<close>

text \<open>GLSL's \<open>mod(x, y)\<close> is \<open>x - y * floor(x / y)\<close>; \<open>smoothstep\<close> is the clamped
  Hermite interpolation.\<close>

definition glsl_mod :: "real \<Rightarrow> real \<Rightarrow> real" where
  "glsl_mod a b = a - b * of_int \<lfloor>a / b\<rfloor>"

definition clamp :: "real \<Rightarrow> real \<Rightarrow> real \<Rightarrow> real" where
  "clamp a lo hi = min (max a lo) hi"

definition smoothstep :: "real \<Rightarrow> real \<Rightarrow> real \<Rightarrow> real" where
  "smoothstep edge0 edge1 a =
     (let t = clamp ((a - edge0) / (edge1 - edge0)) 0 1 in t * t * (3 - 2 * t))"

text \<open>The wrapped vertical position \<open>pos.y\<close> after line 44 of the shader.\<close>

definition snow_y :: "real \<Rightarrow> real \<Rightarrow> real \<Rightarrow> real \<Rightarrow> real \<Rightarrow> real" where
  "snow_y uTime uHeight uSpeed aRandom y0 =
     (let fallOffset = uTime * uSpeed * (0.5 + aRandom * 0.5);
          yRange = uHeight;
          bottom = - yRange / 2;
          newY = y0 - fallOffset
      in glsl_mod (newY - bottom) yRange + bottom)"

text \<open>The animated vertex position and \<open>vAlpha\<close>.  The projection to clip space
  and the point size depend on the engine's matrices only and are left out.\<close>

definition vertexShader :: "real \<Rightarrow> real \<Rightarrow> real \<Rightarrow> real \<Rightarrow> Vector3 \<Rightarrow> Vector3 \<times> real" where
  "vertexShader uTime uHeight uSpeed aRandom position0 =
     (let yRange = uHeight;
          bottom = - yRange / 2;
          y = snow_y uTime uHeight uSpeed aRandom (vy position0);
          x = vx position0 + sin (uTime * 0.5 + y * 0.5 + aRandom * 10) * 0.5;
          z = vz position0 + cos (uTime * 0.3 + y * 0.5 + aRandom * 10) * 0.5;
          normY = (y - bottom) / yRange;
          edgeAlpha = smoothstep 0 0.1 normY * (1 - smoothstep 0.9 1 normY)
      in (Vector3 x y z, edgeAlpha))"

section \<open>Theorems\<close>

subsection \<open>Mode derivation\<close>

lemma effectiveMode_empty_string: "effectiveMode mode (Some []) = mode"
  by (simp add: effectiveMode_def isDetailView_def)

text \<open>
  Claim C1.  For every base mode and every selection state the effective mode is
  CHAOS when a photo is selected (the selection is a non-empty string, which is
  what the source's \<open>!!selectedPhoto\<close> tests) and is the base mode when nothing
  is selected; while a photo is selected the result does not depend on the base
  mode.
\<close>

theorem effectiveMode_derivation:
  "(s \<noteq> [] \<longrightarrow> effectiveMode mode (Some s) = CHAOS)
   \<and> effectiveMode mode None = mode
   \<and> (s \<noteq> [] \<longrightarrow> effectiveMode mode (Some s) = effectiveMode mode' (Some s))
   \<and> effectiveMode mode sel = (if isDetailView sel then CHAOS else mode)"
  by (simp add: effectiveMode_def isDetailView_def)

theorem effectiveMode_derivation_witness:
  "''photo.png'' \<noteq> []
   \<and> effectiveMode FORMATION (Some ''photo.png'') = CHAOS
   \<and> effectiveMode FORMATION None = FORMATION
   \<and> effectiveMode FORMATION (Some ''photo.png'') = effectiveMode CHAOS (Some ''photo.png'')"
  using effectiveMode_derivation [of "''photo.png''" FORMATION CHAOS None]
  by auto

subsection \<open>The spiral of anchors\<close>

lemma photoData_loop_eq:
  "i \<le> count \<Longrightarrow>
   photoData_loop body ps count i k data =
     data @ map (\<lambda>j. body (k + 6 * (j - i)) ps count j) [i..<count]"
proof (induction body ps count i k data rule: photoData_loop.induct)
  case (1 body ps count i k data)
  show ?case
  proof (cases "i < count")
    case True
    have "photoData_loop body ps count i k data =
          photoData_loop body ps count (i + 1) (k + 6) (data @ [body k ps count i])"
      using True by (simp add: photoData_loop.simps [of body ps count i k data])
    also have "\<dots> = (data @ [body k ps count i]) @
          map (\<lambda>j. body (k + 6 + 6 * (j - (i + 1))) ps count j) [i + 1..<count]"
      using True "1.IH" by simp
    also have "map (\<lambda>j. body (k + 6 + 6 * (j - (i + 1))) ps count j) [i + 1..<count] =
          map (\<lambda>j. body (k + 6 * (j - i)) ps count j) [i + 1..<count]"
      by (rule map_cong) (auto simp: algebra_simps)
    finally show ?thesis
      using True by (simp add: upt_conv_Cons)
  next
    case False
    with "1.prems" show ?thesis
      by (subst photoData_loop.simps) simp
  qed
qed

lemma photoData_eq:
  "photoData rnd ps = map (\<lambda>j. photoItem rnd (6 * j) ps (length ps) j) [0..<length ps]"
  by (simp add: photoData_def photoData_loop_eq)

lemma photoData_legacy_eq:
  "photoData_legacy rnd ps =
     map (\<lambda>j. photoItem_legacy rnd (6 * j) ps (length ps) j) [0..<length ps]"
  by (simp add: photoData_legacy_def photoData_loop_eq)

text \<open>
  Claim C5.  The generator makes one item per uploaded photo, and for every index
  \<open>i\<close> below the count the spiral anchor of item \<open>i\<close> has height
  \<open>y = yMin + (i / count) * (yMax - yMin)\<close> with \<open>yMin = 3\<close> and \<open>yMax = 9\<close>
  (that is \<open>3 + (i / count) * 6\<close>), lies at distance
  \<open>radius = 5 * (1 - y / 12) + 0.6\<close> from the vertical axis, and at angle
  \<open>theta = i * 2.5\<close> around it.
\<close>

theorem spiral_anchor:
  assumes "i < length uploadedPhotos"
  shows "length (photoData rnd uploadedPhotos) = length uploadedPhotos
    \<and> id_photo (photoData rnd uploadedPhotos ! i) = i
    \<and> (let count = length uploadedPhotos;
            y = 3 + (real i / real count) * (9 - 3);
            radius = 5 * (1 - y / 12) + 0.6;
            theta = real i * 2.5
        in y = 3 + (real i / real count) * 6
           \<and> tapePos (photoData rnd uploadedPhotos ! i)
               = Vector3 (radius * cos theta) y (radius * sin theta))"
  using assms by (simp add: photoData_eq photoItem_def Let_def)

theorem spiral_anchor_witness:
  "(1::nat) < length [''a.png'', ''b.png'']
   \<and> length (photoData (\<lambda>n. 0) [''a.png'', ''b.png'']) = 2
   \<and> tapePos (photoData (\<lambda>n. 0) [''a.png'', ''b.png''] ! 1)
       = Vector3 (3.1 * cos 2.5) 6 (3.1 * sin 2.5)"
  using spiral_anchor [of 1 "[''a.png'', ''b.png'']" "\<lambda>n. 0"]
  by (simp add: Let_def)

text \<open>The older copy of the generator keeps the height and the angle and uses the
  radius \<open>5.5 * (1 - (i / count) * 0.5)\<close>.\<close>

lemma legacy_spiral_radius:
  assumes "i < length uploadedPhotos"
  shows "tapePos (photoData_legacy rnd uploadedPhotos ! i) =
     (let yNorm = real i / real (length uploadedPhotos);
          r = 5.5 * (1 - yNorm * 0.5)
      in Vector3 (r * cos (real i * 2.5)) (3 + yNorm * 6) (r * sin (real i * 2.5)))"
  using assms by (simp add: photoData_legacy_eq photoItem_legacy_def Let_def)

subsection \<open>The formation orbit\<close>

lemma isSelected_None [simp]: "\<not> isSelected None data"
  by (simp add: isSelected_def)

lemma isDetailMode_None [simp]: "\<not> isDetailMode None"
  by (simp add: isDetailMode_def)

lemma photoData_tapePos:
  "i < length ps \<Longrightarrow>
   tapePos (photoData rnd ps ! i) =
     Vector3 ((5 * (1 - (3 + real i / real (length ps) * 6) / 12) + 0.6) * cos (real i * 2.5))
             (3 + real i / real (length ps) * 6)
             ((5 * (1 - (3 + real i / real (length ps) * 6) / 12) + 0.6) * sin (real i * 2.5))"
  by (simp add: photoData_eq photoItem_def Let_def)

text \<open>
  Claim C6.  With no selection and outside full-screen, at every time \<open>t\<close> the
  target position of an item is its spiral anchor rotated about the vertical axis
  by the angle \<open>t * 0.2\<close>, the same for all items: the height and the distance
  from the axis are those of the anchor, and the item generated at index \<open>i\<close>
  stands at angle \<open>theta_i + t * 0.2\<close>.  The target rotation is that of a node
  which looks at the axis point of its own height and is then turned by \<open>pi\<close>
  about the vertical.  Both copies of the callback agree on this branch.
\<close>

theorem formation_orbit:
  "(let t = clock_elapsedTime state;
        a = tapePos data;
        p = Vector3 (vx a * cos (t * 0.2) - vz a * sin (t * 0.2)) (vy a)
                    (vx a * sin (t * 0.2) + vz a * cos (t * 0.2))
    in targetPose eng data False None aspectRatio g state
         = (p, rotateY eng (lookAt eng p (Vector3 0 (vy p) 0)) pi, Vector3 1 1 1)
       \<and> targetPose_legacy eng data False None g state
         = (p, rotateY eng (lookAt eng p (Vector3 0 (vy p) 0)) pi)
       \<and> vy p = vy a
       \<and> (vx p)\<^sup>2 + (vz p)\<^sup>2 = (vx a)\<^sup>2 + (vz a)\<^sup>2)
   \<and> (i < length uploadedPhotos \<longrightarrow>
        (let t = clock_elapsedTime state;
             y = 3 + (real i / real (length uploadedPhotos)) * 6;
             r = 5 * (1 - y / 12) + 0.6;
             theta = real i * 2.5
         in fst (targetPose eng (photoData rnd uploadedPhotos ! i) False None aspectRatio g state)
              = Vector3 (r * cos (theta + t * 0.2)) y (r * sin (theta + t * 0.2))))"
proof -
  have sq: "(x * c - z * s)\<^sup>2 + (x * s + z * c)\<^sup>2 = x\<^sup>2 + z\<^sup>2"
    if "s\<^sup>2 + c\<^sup>2 = 1" for x z c s :: real
  proof -
    have "(x * c - z * s)\<^sup>2 + (x * s + z * c)\<^sup>2 = (x\<^sup>2 + z\<^sup>2) * (s\<^sup>2 + c\<^sup>2)"
      by (simp add: power2_eq_square algebra_simps)
    then show ?thesis using that by simp
  qed
  have A: "targetPose eng d False None aspectRatio g state = formationTarget eng d state" for d
    by (simp add: targetPose_def)
  have B: "targetPose_legacy eng d False None g state =
      (case formationTarget eng d state of (p, q, s) \<Rightarrow> (p, q))" for d
    by (simp add: targetPose_legacy_def)
  show ?thesis
    by (simp add: A B formationTarget_def Let_def sq photoData_tapePos cos_add sin_add algebra_simps)
qed

theorem formation_orbit_witness:
  "(0::nat) < length [''a.png'']
   \<and> fst (targetPose still_engine (photoData (\<lambda>n. 0) [''a.png''] ! 0) False None 1
             origin_group (still_state 0))
       = Vector3 4.35 3 0"
  using formation_orbit [of "still_state 0" "photoData (\<lambda>n. 0) [''a.png''] ! 0" still_engine 1
          origin_group 0 "[''a.png'']" "\<lambda>n. 0"]
  by (simp add: Let_def still_state_def photoData_eq photoItem_def)

subsection \<open>The selected photo\<close>

text \<open>
  Claim C2.  In a frame in which the item is the selected one (the selection is
  the item's url) and the photo has a positive aspect ratio, the target position
  is the camera position plus five times the camera's forward vector, which is
  \<open>(0, 0, -1)\<close> rotated by the camera's quaternion, converted by the parent's
  \<open>worldToLocal\<close> when the node has a parent; the target rotation is that of a
  node at this world position looking at the camera; the target scale is uniform
  with factor \<open>(2 * tan (fov / 2) * 5 * 0.7) / frameHeight\<close>, \<open>fov\<close> being
  the camera's field of view (kept in degrees by the engine) and \<open>frameHeight\<close>
  being \<open>1 / aspectRatio + 0.4\<close>, so that the scaled frame height is 70 percent
  of the height visible at distance 5; the factor is positive for a field of
  view between 0 and 180 degrees.
\<close>

theorem selected_target:
  assumes "selectedPhoto = Some (url data)" and "0 < aspectRatio"
  shows "(let cam = camera state;
              forward = applyQuaternion eng (Vector3 0 0 (- 1)) (camera_quaternion cam);
              worldPos = Vector3 (vx (camera_position cam) + vx forward * 5)
                                 (vy (camera_position cam) + vy forward * 5)
                                 (vz (camera_position cam) + vz forward * 5);
              fh = 1 / aspectRatio + 0.4;
              s = (2 * tan ((fov cam * pi / 180) / 2) * 5 * 0.7) / fh
          in targetPose eng data isFullScreen selectedPhoto aspectRatio g state
               = ((case parent g of Some m \<Rightarrow> worldToLocal eng m worldPos | None \<Rightarrow> worldPos),
                  lookAt eng worldPos (camera_position cam),
                  Vector3 s s s)
             \<and> frameHeight aspectRatio = fh
             \<and> s * fh = 0.7 * (2 * tan ((fov cam * pi / 180) / 2) * 5)
             \<and> (0 < fov cam \<and> fov cam < 180 \<longrightarrow> 0 < s))"
proof -
  let ?fh = "1 / aspectRatio + 0.4"
  have fhd: "frameHeight aspectRatio = ?fh"
    by (simp add: frameHeight_def photoHeight_def photoWidth_def)
  have fh: "0 < ?fh"
    using assms(2) by (simp add: add_pos_pos)
  have "0 < tan ((fov (camera state) * pi / 180) / 2)"
    if "0 < fov (camera state)" "fov (camera state) < 180"
    using that by (intro tan_gt_zero) simp_all
  then have pos: "0 < fov (camera state) \<and> fov (camera state) < 180 \<longrightarrow>
      0 < (2 * tan ((fov (camera state) * pi / 180) / 2) * 5 * 0.7) / ?fh"
    using fh by simp
  have eq: "targetPose eng data isFullScreen selectedPhoto aspectRatio g state
      = selectedTarget eng aspectRatio g state"
    using assms(1) by (simp add: targetPose_def isSelected_def)
  have tgt: "selectedTarget eng aspectRatio g state =
      (let cam = camera state;
           forward = applyQuaternion eng (Vector3 0 0 (- 1)) (camera_quaternion cam);
           worldPos = Vector3 (vx (camera_position cam) + vx forward * 5)
                              (vy (camera_position cam) + vy forward * 5)
                              (vz (camera_position cam) + vz forward * 5);
           s = (2 * tan ((fov cam * pi / 180) / 2) * 5 * 0.7) / ?fh
       in ((case parent g of Some m \<Rightarrow> worldToLocal eng m worldPos | None \<Rightarrow> worldPos),
           lookAt eng worldPos (camera_position cam), Vector3 s s s))"
  proof -
    have sc: "(2 * tan ((fov (camera state) * pi) / 360) * 5 * 0.7) / frameHeight aspectRatio
        = (2 * tan ((fov (camera state) * pi / 180) / 2) * 5 * 0.7) / ?fh"
      by (simp only: fhd) simp
    show ?thesis
      unfolding selectedTarget_def toParentSpace_def cameraForward_def add_def
          multiplyScalar_def Let_def sc
      by (simp split: option.splits)
  qed
  have sfh: "(2 * tan ((fov (camera state) * pi / 180) / 2) * 5 * 0.7) / ?fh * ?fh
      = 0.7 * (2 * tan ((fov (camera state) * pi / 180) / 2) * 5)"
    using fh by simp
  show ?thesis
    unfolding Let_def eq tgt
    by (intro conjI refl fhd sfh pos)
qed

theorem selected_target_witness:
  "Some ''a.png'' = Some (url (photoData (\<lambda>n. 0) [''a.png''] ! 0)) \<and> (0::real) < 2
   \<and> fst (targetPose turning_engine (photoData (\<lambda>n. 0) [''a.png''] ! 0) False (Some ''a.png'') 2
        hanging_group (turned_state 0))
      = Vector3 0 5 15
   \<and> snd (snd (targetPose turning_engine (photoData (\<lambda>n. 0) [''a.png''] ! 0) False
        (Some ''a.png'') 2 hanging_group (turned_state 0)))
      = Vector3 (70 / 9) (70 / 9) (70 / 9)"
  using selected_target [of "Some ''a.png''" "photoData (\<lambda>n. 0) [''a.png''] ! 0" 2
          "turned_state 0" turning_engine False hanging_group]
  by (simp add: photoData_eq photoItem_def turned_state_def turned_camera_def turning_engine_def
        hanging_group_def rotate_by_def tan_45 Let_def)

text \<open>The older copy of the callback resolves the same position and rotation for
  the selected photo, and leaves the scale of the node as it is.\<close>

lemma legacy_selected_pose:
  assumes "selectedPhoto = Some (url data)"
  shows "targetPose_legacy eng data isFullScreen selectedPhoto g state =
     (let cam = camera state;
          forward = applyQuaternion eng (Vector3 0 0 (- 1)) (camera_quaternion cam);
          worldPos = Vector3 (vx (camera_position cam) + vx forward * 5)
                             (vy (camera_position cam) + vy forward * 5)
                             (vz (camera_position cam) + vz forward * 5)
      in ((case parent g of Some m \<Rightarrow> worldToLocal eng m worldPos | None \<Rightarrow> worldPos),
          lookAt eng worldPos (camera_position cam)))"
  using assms
  by (simp add: targetPose_legacy_def isSelected_def toParentSpace_def cameraForward_def
        add_def multiplyScalar_def Let_def)

lemma useFrame_legacy_scale:
  "useFrame_legacy eng data isFullScreen selectedPhoto (Some g) state delta = Some g'
   \<Longrightarrow> scale g' = scale g"
  by (auto simp: useFrame_legacy_def split: prod.splits)

subsection \<open>The photos behind the selected one\<close>

lemma keepClear_zero: "keepClear 0 = - 4"
  by (simp add: keepClear_def)

text \<open>
  Claim C7.  For an item that is not the selected one while a photo is selected,
  the target position is the point 25 units in front of the camera, moved along
  the camera's right vector by the lateral offset and along its up vector by the
  vertical offset, in the parent's coordinates.  The lateral offset is
  \<open>keepClear rX\<close> for the id-derived \<open>rX = sin (id * 13) * 20\<close>: an \<open>rX\<close>
  strictly between 0 and 4 gives 4, one strictly between -4 and 0 gives -4, and
  an \<open>rX\<close> of absolute value at least 4 is used unchanged; the offset used is
  never inside the keep-clear radius.
\<close>

theorem keep_clear:
  assumes "isDetailMode selectedPhoto" and "\<not> isSelected selectedPhoto data"
  shows "(let cam = camera state;
              rX = sin (real (id_photo data) * 13) * 20;
              rY = cos (real (id_photo data) * 13 * 1.5) * 12;
              pos = add (add (add (camera_position cam) (multiplyScalar (cameraForward eng cam) 25))
                             (multiplyScalar (cameraRight eng cam) (keepClear rX)))
                        (multiplyScalar (cameraUp eng cam) rY)
          in fst (targetPose eng data isFullScreen selectedPhoto aspectRatio g state)
               = (case parent g of Some m \<Rightarrow> worldToLocal eng m pos | None \<Rightarrow> pos)
             \<and> (0 < rX \<and> rX < 4 \<longrightarrow> keepClear rX = 4)
             \<and> (- 4 < rX \<and> rX < 0 \<longrightarrow> keepClear rX = - 4)
             \<and> (4 \<le> \<bar>rX\<bar> \<longrightarrow> keepClear rX = rX)
             \<and> 4 \<le> \<bar>keepClear rX\<bar>)"
  using assms
  by (auto simp: targetPose_def backgroundTarget_def toParentSpace_def keepClear_def Let_def
        split: option.splits)

theorem keep_clear_witness:
  "isDetailMode (Some ''b.png'')
   \<and> \<not> isSelected (Some ''b.png'') (photoData (\<lambda>n. 0) [''a.png'', ''b.png''] ! 0)
   \<and> fst (targetPose still_engine (photoData (\<lambda>n. 0) [''a.png'', ''b.png''] ! 0) False
             (Some ''b.png'') 1 origin_group (still_state 0))
       = Vector3 (- 4) 12 (- 15)"
  using keep_clear [of "Some ''b.png''" "photoData (\<lambda>n. 0) [''a.png'', ''b.png''] ! 0"
          "still_state 0" still_engine False 1 origin_group]
  by (simp add: isDetailMode_def isSelected_def photoData_eq photoItem_def Let_def
        still_state_def still_camera_def still_engine_def origin_group_def
        cameraForward_def cameraRight_def cameraUp_def add_def multiplyScalar_def keepClear_def)

subsection \<open>Clicks\<close>

text \<open>
  Claim C9.  A click on an item calls \<open>onPhotoClick\<close>, with the url of that
  item, exactly when no photo is selected.  While a photo is selected, a click on
  any item, selected or not, calls no callback: all the handler does is stop the
  propagation of the event, which it does in every case.
\<close>

theorem click_callback:
  "(OnPhotoClick u \<in> set (handleClick data selectedPhoto)
      \<longleftrightarrow> \<not> isDetailMode selectedPhoto \<and> u = url data)
   \<and> handleClick data None = [StopPropagation, OnPhotoClick (url data)]
   \<and> (s \<noteq> [] \<longrightarrow> handleClick data' (Some s) = [StopPropagation])"
  by (auto simp add: handleClick_def isDetailMode_def)

theorem click_callback_witness:
  "''b.png'' \<noteq> []
   \<and> handleClick (photoData (\<lambda>n. 0) [''a.png'', ''b.png''] ! 0) (Some ''b.png'') = [StopPropagation]
   \<and> handleClick (photoData (\<lambda>n. 0) [''a.png'', ''b.png''] ! 1) (Some ''b.png'') = [StopPropagation]
   \<and> handleClick (photoData (\<lambda>n. 0) [''a.png'', ''b.png''] ! 1) None
        = [StopPropagation, OnPhotoClick ''b.png'']"
  using click_callback [of _ "photoData (\<lambda>n. 0) [''a.png'', ''b.png''] ! 1" None "''b.png''"
          "photoData (\<lambda>n. 0) [''a.png'', ''b.png''] ! 0"]
        click_callback [of _ "photoData (\<lambda>n. 0) [''a.png'', ''b.png''] ! 1" None "''b.png''"
          "photoData (\<lambda>n. 0) [''a.png'', ''b.png''] ! 1"]
  by (simp add: photoData_eq photoItem_def nth_Cons' Let_def)

subsection \<open>Upload\<close>

lemma promise_all_readers:
  "promise_all (readers fs) =
     (if \<forall>f \<in> set fs. isImage f \<longrightarrow> truthy (readAsDataURL f)
      then Some (map (\<lambda>f. the (readAsDataURL f)) (filter isImage fs))
      else None)"
proof (induction fs)
  case Nil
  show ?case by simp
next
  case (Cons f fs)
  show ?case
  proof (cases "isImage f")
    case False
    then show ?thesis using Cons by simp
  next
    case True
    show ?thesis
    proof (cases "readAsDataURL f")
      case None
      then show ?thesis using True by auto
    next
      case (Some r)
      then show ?thesis using True Cons by auto
    qed
  qed
qed

text \<open>
  Claim C10.  For every file list handed to the upload handler, the list passed
  to \<open>onPhotosUpload\<close> consists of the data URLs of the files whose MIME type
  starts with \<open>image/\<close>, one entry for each such file, in the order of the
  selection; the other files are skipped.  The call is made exactly when the
  list is not empty and every image file was read with a non-empty result.
\<close>

theorem upload_images_only:
  "handleFileChange (Some fs) =
     (if fs \<noteq> [] \<and> (\<forall>f \<in> set fs. isImage f \<longrightarrow> truthy (readAsDataURL f))
      then Some (map (\<lambda>f. the (readAsDataURL f)) (filter isImage fs))
      else None)
   \<and> handleFileChange None = None"
  by (simp add: handleFileChange_def promise_all_readers)

theorem upload_images_only_witness:
  "handleFileChange (Some
     [\<lparr>file_type = ''image/png'', readAsDataURL = Some ''data:image/png;base64,AAAA''\<rparr>,
      \<lparr>file_type = ''text/plain'', readAsDataURL = Some ''data:text/plain;base64,BBBB''\<rparr>,
      \<lparr>file_type = ''image/jpeg'', readAsDataURL = Some ''data:image/jpeg;base64,CCCC''\<rparr>])
   = Some [''data:image/png;base64,AAAA'', ''data:image/jpeg;base64,CCCC'']"
  using upload_images_only [of
     "[\<lparr>file_type = ''image/png'', readAsDataURL = Some ''data:image/png;base64,AAAA''\<rparr>,
      \<lparr>file_type = ''text/plain'', readAsDataURL = Some ''data:text/plain;base64,BBBB''\<rparr>,
      \<lparr>file_type = ''image/jpeg'', readAsDataURL = Some ''data:image/jpeg;base64,CCCC''\<rparr>]"]
  by (simp add: startsWith_def)

subsection \<open>The interpolation step\<close>

lemma useFrame_Some:
  "useFrame eng data isFullScreen selectedPhoto aspectRatio (Some g) state delta =
     Some (g\<lparr> position := lerp (position g)
                 (fst (targetPose eng data isFullScreen selectedPhoto aspectRatio g state))
                 (delta * lerpSpeed isFullScreen selectedPhoto),
              quaternion := slerp eng (quaternion g)
                 (fst (snd (targetPose eng data isFullScreen selectedPhoto aspectRatio g state)))
                 (delta * lerpSpeed isFullScreen selectedPhoto),
              scale := lerp (scale g)
                 (snd (snd (targetPose eng data isFullScreen selectedPhoto aspectRatio g state)))
                 (delta * lerpSpeed isFullScreen selectedPhoto) \<rparr>)"
  by (simp add: useFrame_def split: prod.splits)

lemma useFrame_legacy_Some:
  "useFrame_legacy eng data isFullScreen selectedPhoto (Some g) state delta =
     Some (g\<lparr> position := lerp (position g)
                 (fst (targetPose_legacy eng data isFullScreen selectedPhoto g state))
                 (delta * lerpSpeed isFullScreen selectedPhoto),
              quaternion := slerp eng (quaternion g)
                 (snd (targetPose_legacy eng data isFullScreen selectedPhoto g state))
                 (delta * lerpSpeed isFullScreen selectedPhoto) \<rparr>)"
  by (simp add: useFrame_legacy_def split: prod.splits)

lemma distanceTo_lerp:
  "distanceTo (lerp a v alpha) v = \<bar>1 - alpha\<bar> * distanceTo a v"
proof -
  have c: "x + (w - x) * alpha - w = (1 - alpha) * (x - w)" for x w :: real
    by (simp add: algebra_simps)
  have "(vx (lerp a v alpha) - vx v)\<^sup>2 + (vy (lerp a v alpha) - vy v)\<^sup>2
          + (vz (lerp a v alpha) - vz v)\<^sup>2
        = (1 - alpha)\<^sup>2 * ((vx a - vx v)\<^sup>2 + (vy a - vy v)\<^sup>2 + (vz a - vz v)\<^sup>2)"
    by (simp add: lerp_def c power_mult_distrib distrib_left)
  then show ?thesis
    by (simp add: distanceTo_def real_sqrt_mult)
qed

lemma lerp_components:
  "lerp a v alpha = Vector3 (vx a + (vx v - vx a) * alpha) (vy a + (vy v - vy a) * alpha)
                            (vz a + (vz v - vz a) * alpha)"
  by (simp add: lerp_def)

lemma lerp_one: "lerp a v 1 = v"
  by (simp add: lerp_def)

lemma lerp_eq_target_iff:
  assumes "alpha \<noteq> 1"
  shows "lerp a v alpha = v \<longleftrightarrow> a = v"
proof
  assume "lerp a v alpha = v"
  then have "distanceTo (lerp a v alpha) v = 0"
    by (simp add: distanceTo_def)
  then have "distanceTo a v = 0"
    using assms by (simp add: distanceTo_lerp)
  then have "(vx a - vx v)\<^sup>2 + (vy a - vy v)\<^sup>2 + (vz a - vz v)\<^sup>2 = 0"
    by (simp add: distanceTo_def)
  then have "vx a = vx v \<and> vy a = vy v \<and> vz a = vz v"
    by (simp add: add_nonneg_eq_0_iff)
  then show "a = v"
    by (simp add: Vector3.expand)
next
  assume "a = v"
  then show "lerp a v alpha = v"
    by (simp add: lerp_def)
qed

text \<open>
  Claim C3, as the code has it.  In every frame in which the node exists, the
  callback moves the position by \<open>(target - position) * (rate * delta)\<close> in each
  coordinate and replaces the rotation by the engine's \<open>slerp\<close> towards the
  target rotation with the same factor \<open>rate * delta\<close>; the rate is 8 when a
  photo is selected or the scene is in full-screen, and 2 otherwise.  The factor
  is not clamped.  The step is the one with \<open>min 1 (rate * delta)\<close> if and only
  if \<open>rate * delta \<le> 1\<close> or the item is already on its target.  When
  \<open>rate * delta > 1\<close> the clamped step would end on the target, while the code
  carries the item past it: the offset from the target is reversed and scaled by
  \<open>rate * delta - 1\<close>, and so is the distance.  Both copies of the callback
  agree on the position and the rotation.
\<close>

theorem interpolator_step:
  "(let rate = lerpSpeed isFullScreen selectedPhoto;
        T = targetPose eng data isFullScreen selectedPhoto aspectRatio g state;
        g' = the (useFrame eng data isFullScreen selectedPhoto aspectRatio (Some g) state delta);
        L = targetPose_legacy eng data isFullScreen selectedPhoto g state;
        h' = the (useFrame_legacy eng data isFullScreen selectedPhoto (Some g) state delta);
        clamped = Vector3
              (vx (position g) + (vx (fst T) - vx (position g)) * min 1 (rate * delta))
              (vy (position g) + (vy (fst T) - vy (position g)) * min 1 (rate * delta))
              (vz (position g) + (vz (fst T) - vz (position g)) * min 1 (rate * delta))
    in rate = (if isDetailMode selectedPhoto \<or> isFullScreen then 8 else 2)
       \<and> useFrame eng data isFullScreen selectedPhoto aspectRatio (Some g) state delta \<noteq> None
       \<and> position g' = Vector3 (vx (position g) + (vx (fst T) - vx (position g)) * (rate * delta))
                                (vy (position g) + (vy (fst T) - vy (position g)) * (rate * delta))
                                (vz (position g) + (vz (fst T) - vz (position g)) * (rate * delta))
       \<and> quaternion g' = slerp eng (quaternion g) (fst (snd T)) (rate * delta)
       \<and> useFrame_legacy eng data isFullScreen selectedPhoto (Some g) state delta \<noteq> None
       \<and> position h' = Vector3 (vx (position g) + (vx (fst L) - vx (position g)) * (rate * delta))
                                (vy (position g) + (vy (fst L) - vy (position g)) * (rate * delta))
                                (vz (position g) + (vz (fst L) - vz (position g)) * (rate * delta))
       \<and> quaternion h' = slerp eng (quaternion g) (snd L) (rate * delta)
       \<and> (rate * delta \<le> 1 \<longrightarrow> position g' = clamped)
       \<and> (position g' = clamped \<longleftrightarrow> rate * delta \<le> 1 \<or> position g = fst T)
       \<and> (1 < rate * delta \<longrightarrow>
            clamped = fst T
            \<and> vx (position g') - vx (fst T) = - (rate * delta - 1) * (vx (position g) - vx (fst T))
            \<and> vy (position g') - vy (fst T) = - (rate * delta - 1) * (vy (position g) - vy (fst T))
            \<and> vz (position g') - vz (fst T) = - (rate * delta - 1) * (vz (position g) - vz (fst T))
            \<and> distanceTo (position g') (fst T)
                = (rate * delta - 1) * distanceTo (position g) (fst T)))"
proof -
  let ?r = "lerpSpeed isFullScreen selectedPhoto"
  let ?T = "targetPose eng data isFullScreen selectedPhoto aspectRatio g state"
  let ?L = "targetPose_legacy eng data isFullScreen selectedPhoto g state"
  let ?g' = "the (useFrame eng data isFullScreen selectedPhoto aspectRatio (Some g) state delta)"
  let ?h' = "the (useFrame_legacy eng data isFullScreen selectedPhoto (Some g) state delta)"
  let ?clamped = "lerp (position g) (fst ?T) (min 1 (?r * delta))"
  have rate: "?r = (if isDetailMode selectedPhoto \<or> isFullScreen then 8 else 2)"
    by (simp add: lerpSpeed_def)
  have p: "position ?g' = lerp (position g) (fst ?T) (?r * delta)"
    and q: "quaternion ?g' = slerp eng (quaternion g) (fst (snd ?T)) (?r * delta)"
    and n: "useFrame eng data isFullScreen selectedPhoto aspectRatio (Some g) state delta \<noteq> None"
    by (simp_all add: useFrame_Some mult.commute)
  have lp: "position ?h' = lerp (position g) (fst ?L) (?r * delta)"
    and lq: "quaternion ?h' = slerp eng (quaternion g) (snd ?L) (?r * delta)"
    and ln: "useFrame_legacy eng data isFullScreen selectedPhoto (Some g) state delta \<noteq> None"
    by (simp_all add: useFrame_legacy_Some mult.commute)
  have small: "position ?g' = ?clamped" if "?r * delta \<le> 1"
    using that by (simp add: p min_def)
  have big: "?clamped = fst ?T" if "1 < ?r * delta"
    using that by (simp add: min_def lerp_one)
  have iff: "position ?g' = ?clamped \<longleftrightarrow> ?r * delta \<le> 1 \<or> position g = fst ?T"
  proof (cases "?r * delta \<le> 1")
    case True
    then show ?thesis using small by simp
  next
    case False
    then have gt: "1 < ?r * delta" and ne: "?r * delta \<noteq> 1" by simp_all
    have "position ?g' = ?clamped \<longleftrightarrow> lerp (position g) (fst ?T) (?r * delta) = fst ?T"
      by (simp only: p big [OF gt])
    also have "\<dots> \<longleftrightarrow> position g = fst ?T"
      by (rule lerp_eq_target_iff [OF ne])
    finally show ?thesis
      using False by simp
  qed
  have comp: "vx (position ?g') - vx (fst ?T) = - (?r * delta - 1) * (vx (position g) - vx (fst ?T))"
    "vy (position ?g') - vy (fst ?T) = - (?r * delta - 1) * (vy (position g) - vy (fst ?T))"
    "vz (position ?g') - vz (fst ?T) = - (?r * delta - 1) * (vz (position g) - vz (fst ?T))"
    by (simp_all add: p lerp_def algebra_simps)
  have dist: "distanceTo (position ?g') (fst ?T) = (?r * delta - 1) * distanceTo (position g) (fst ?T)"
    if "1 < ?r * delta"
    using that by (simp add: p distanceTo_lerp)
  show ?thesis
    unfolding Let_def lerp_components [symmetric]
    using rate n p q ln lp lq small iff big comp dist
    by (intro conjI impI) simp_all
qed

theorem interpolator_step_witness:
  "lerpSpeed False None * (1 / 10) \<le> 1
   \<and> position (the (useFrame still_engine (photoData (\<lambda>n. 0) [''a.png''] ! 0) False None 1
                      (Some origin_group) (still_state 0) (1 / 10)))
       = Vector3 0.87 0.6 0
   \<and> 1 < lerpSpeed False None * 1
   \<and> distanceTo (position (the (useFrame still_engine (photoData (\<lambda>n. 0) [''a.png''] ! 0) False
                      None 1 (Some origin_group) (still_state 0) 1))) (Vector3 4.35 3 0)
       = distanceTo (Vector3 0 0 0) (Vector3 4.35 3 0)"
proof -
  have T: "targetPose still_engine (photoData (\<lambda>n. 0) [''a.png''] ! 0) False None 1
             origin_group (still_state 0) = (Vector3 4.35 3 0, Quaternion 0 0 0 1, Vector3 1 1 1)"
    by (simp add: targetPose_def isSelected_def isDetailMode_def formationTarget_def
          still_state_def still_engine_def photoData_eq photoItem_def Let_def)
  have r: "lerpSpeed False None = 2"
    by (simp add: lerpSpeed_def isDetailMode_def)
  have p0: "position origin_group = Vector3 0 0 0"
    by (simp add: origin_group_def)
  have a: "lerpSpeed False None * (1 / 10) \<le> 1" and b: "1 < lerpSpeed False None * 1"
    by (simp_all add: r)
  have "position (the (useFrame still_engine (photoData (\<lambda>n. 0) [''a.png''] ! 0) False None 1
                      (Some origin_group) (still_state 0) (1 / 10)))
       = Vector3 (0 + (4.35 - 0) * min 1 (2 * (1 / 10))) (0 + (3 - 0) * min 1 (2 * (1 / 10)))
                 (0 + (0 - 0) * min 1 (2 * (1 / 10)))"
    using interpolator_step [of False None still_engine "photoData (\<lambda>n. 0) [''a.png''] ! 0" 1
            origin_group "still_state 0" "1 / 10"] a
    unfolding Let_def T r p0 fst_conv Vector3.sel by blast
  moreover have "distanceTo (position (the (useFrame still_engine (photoData (\<lambda>n. 0) [''a.png''] ! 0)
                      False None 1 (Some origin_group) (still_state 0) 1))) (Vector3 4.35 3 0)
       = (2 * 1 - 1) * distanceTo (Vector3 0 0 0) (Vector3 4.35 3 0)"
    using interpolator_step [of False None still_engine "photoData (\<lambda>n. 0) [''a.png''] ! 0" 1
            origin_group "still_state 0" 1] b
    unfolding Let_def T r p0 fst_conv Vector3.sel by blast
  ultimately show ?thesis
    using a b by simp
qed

text \<open>
  The step with the clamp \<open>min 1 (rate * delta)\<close> is not what the code does when
  a frame is long.  In formation (rate 2), after a frame of one second, the item
  at the origin with its target at \<open>(4.35, 3, 0)\<close> is moved to twice the target,
  where the clamped step would put it on the target.
\<close>

theorem interpolator_step_counterexample:
  "position (the (useFrame still_engine (photoData (\<lambda>n. 0) [''a.png''] ! 0) False None 1
                      (Some origin_group) (still_state 0) 1))
     = Vector3 8.7 6 0
   \<and> fst (targetPose still_engine (photoData (\<lambda>n. 0) [''a.png''] ! 0) False None 1
             origin_group (still_state 0))
     = Vector3 4.35 3 0
   \<and> vx (position origin_group) + (4.35 - vx (position origin_group)) * min 1 (lerpSpeed False None * 1)
     = 4.35
   \<and> vx (position (the (useFrame still_engine (photoData (\<lambda>n. 0) [''a.png''] ! 0) False None 1
                      (Some origin_group) (still_state 0) 1)))
     \<noteq> vx (position origin_group) + (4.35 - vx (position origin_group)) * min 1 (lerpSpeed False None * 1)"
  by (simp add: useFrame_Some Let_def lerp_def lerpSpeed_def targetPose_def formationTarget_def
        still_state_def photoData_eq photoItem_def origin_group_def)

subsection \<open>Convergence of the interpolation\<close>

lemma distanceTo_nonneg: "0 \<le> distanceTo a b"
  by (simp add: distanceTo_def)

lemma toParentSpace_parent:
  "parent g' = parent g \<Longrightarrow> toParentSpace eng g' p = toParentSpace eng g p"
  by (simp add: toParentSpace_def)

lemma targetPose_parent:
  assumes "parent g' = parent g"
  shows "targetPose eng data isFullScreen selectedPhoto aspectRatio g' state =
         targetPose eng data isFullScreen selectedPhoto aspectRatio g state"
  by (simp add: targetPose_def selectedTarget_def backgroundTarget_def fullScreenTarget_def
        toParentSpace_parent [OF assms] Let_def)

lemma lerpSpeed_pos: "0 < lerpSpeed isFullScreen selectedPhoto"
  by (simp add: lerpSpeed_def)

lemma useFrame_parent:
  "useFrame eng data isFullScreen selectedPhoto aspectRatio (Some g) state delta = Some g'
   \<Longrightarrow> parent g' = parent g"
  by (auto simp: useFrame_Some)

lemma useFrame_contracts:
  assumes T: "targetPose eng data isFullScreen selectedPhoto aspectRatio g state = T"
    and d: "0 < delta" "lerpSpeed isFullScreen selectedPhoto * delta \<le> 1"
    and g': "useFrame eng data isFullScreen selectedPhoto aspectRatio (Some g) state delta = Some g'"
  shows "distanceTo (position g') (fst T)
           \<le> exp (- (lerpSpeed isFullScreen selectedPhoto * delta)) * distanceTo (position g) (fst T)"
    and "distanceTo (scale g') (snd (snd T))
           \<le> exp (- (lerpSpeed isFullScreen selectedPhoto * delta)) * distanceTo (scale g) (snd (snd T))"
    and "distanceTo (position g') (fst T) \<le> distanceTo (position g) (fst T)"
    and "distanceTo (scale g') (snd (snd T)) \<le> distanceTo (scale g) (snd (snd T))"
proof -
  let ?a = "lerpSpeed isFullScreen selectedPhoto * delta"
  have a0: "0 < ?a"
    using d(1) lerpSpeed_pos by simp
  have "1 + (- ?a) \<le> exp (- ?a)"
    by (rule exp_ge_add_one_self)
  with a0 d(2) have k: "\<bar>1 - ?a\<bar> \<le> exp (- ?a)" and k1: "\<bar>1 - ?a\<bar> \<le> 1"
    by simp_all
  have p: "position g' = lerp (position g) (fst T) (delta * lerpSpeed isFullScreen selectedPhoto)"
    and s: "scale g' = lerp (scale g) (snd (snd T)) (delta * lerpSpeed isFullScreen selectedPhoto)"
    using g' T by (auto simp: useFrame_Some)
  show "distanceTo (position g') (fst T) \<le> exp (- ?a) * distanceTo (position g) (fst T)"
    unfolding p distanceTo_lerp
    using k by (simp add: mult.commute [of delta] mult_right_mono distanceTo_nonneg)
  show "distanceTo (scale g') (snd (snd T)) \<le> exp (- ?a) * distanceTo (scale g) (snd (snd T))"
    unfolding s distanceTo_lerp
    using k by (simp add: mult.commute [of delta] mult_right_mono distanceTo_nonneg)
  show "distanceTo (position g') (fst T) \<le> distanceTo (position g) (fst T)"
    unfolding p distanceTo_lerp
    using k1 mult_right_mono [of "\<bar>1 - ?a\<bar>" 1 "distanceTo (position g) (fst T)"]
    by (simp add: mult.commute [of delta] distanceTo_nonneg)
  show "distanceTo (scale g') (snd (snd T)) \<le> distanceTo (scale g) (snd (snd T))"
    unfolding s distanceTo_lerp
    using k1 mult_right_mono [of "\<bar>1 - ?a\<bar>" 1 "distanceTo (scale g) (snd (snd T))"]
    by (simp add: mult.commute [of delta] distanceTo_nonneg)
qed

lemma runFrames_bound:
  assumes "\<forall>(st, d) \<in> set frames.
             targetPose eng data isFullScreen selectedPhoto aspectRatio g st = T
             \<and> 0 < d \<and> lerpSpeed isFullScreen selectedPhoto * d \<le> 1"
  shows "\<exists>g'. runFrames eng data isFullScreen selectedPhoto aspectRatio (Some g) frames = Some g'
           \<and> parent g' = parent g
           \<and> distanceTo (position g') (fst T)
               \<le> exp (- (lerpSpeed isFullScreen selectedPhoto * sum_list (map snd frames)))
                  * distanceTo (position g) (fst T)
           \<and> distanceTo (scale g') (snd (snd T))
               \<le> exp (- (lerpSpeed isFullScreen selectedPhoto * sum_list (map snd frames)))
                  * distanceTo (scale g) (snd (snd T))"
  using assms
proof (induction frames arbitrary: g)
  case Nil
  show ?case by simp
next
  case (Cons f frames)
  obtain st d where f: "f = (st, d)" by (cases f)
  let ?r = "lerpSpeed isFullScreen selectedPhoto"
  from Cons.prems f have T: "targetPose eng data isFullScreen selectedPhoto aspectRatio g st = T"
    and d: "0 < d" "?r * d \<le> 1"
    by simp_all
  obtain g1 where g1: "useFrame eng data isFullScreen selectedPhoto aspectRatio (Some g) st d = Some g1"
    by (simp add: useFrame_Some)
  have par: "parent g1 = parent g"
    using g1 by (rule useFrame_parent)
  have "\<forall>(st, d) \<in> set frames.
             targetPose eng data isFullScreen selectedPhoto aspectRatio g1 st = T
             \<and> 0 < d \<and> ?r * d \<le> 1"
    using Cons.prems by (auto simp: targetPose_parent [OF par])
  from Cons.IH [OF this] obtain g' where
    run: "runFrames eng data isFullScreen selectedPhoto aspectRatio (Some g1) frames = Some g'"
    and par': "parent g' = parent g1"
    and p: "distanceTo (position g') (fst T)
             \<le> exp (- (?r * sum_list (map snd frames))) * distanceTo (position g1) (fst T)"
    and s: "distanceTo (scale g') (snd (snd T))
             \<le> exp (- (?r * sum_list (map snd frames))) * distanceTo (scale g1) (snd (snd T))"
    by blast
  have e: "exp (- (?r * sum_list (map snd (f # frames))))
            = exp (- (?r * sum_list (map snd frames))) * exp (- (?r * d))"
    by (simp add: f exp_add [symmetric] algebra_simps)
  have "distanceTo (position g') (fst T)
          \<le> exp (- (?r * sum_list (map snd frames))) * (exp (- (?r * d)) * distanceTo (position g) (fst T))"
    using p useFrame_contracts(1) [OF T d g1]
    by (meson exp_ge_zero mult_left_mono order_trans)
  moreover have "distanceTo (scale g') (snd (snd T))
          \<le> exp (- (?r * sum_list (map snd frames))) * (exp (- (?r * d)) * distanceTo (scale g) (snd (snd T)))"
    using s useFrame_contracts(2) [OF T d g1]
    by (meson exp_ge_zero mult_left_mono order_trans)
  ultimately show ?case
    using run par par' g1 unfolding e by (simp add: f mult.assoc)
qed

lemma runFrames_snoc:
  "runFrames eng data isFullScreen selectedPhoto aspectRatio groupRef (frames @ [(st, d)]) =
     useFrame eng data isFullScreen selectedPhoto aspectRatio
       (runFrames eng data isFullScreen selectedPhoto aspectRatio groupRef frames) st d"
  by (induction frames arbitrary: groupRef) auto

lemma exp_bound_epsilon:
  fixes dstart eps rate elapsed x :: real
  assumes x: "x \<le> exp (- (rate * elapsed)) * dstart" and dstart: "0 \<le> dstart" and eps: "0 < eps"
    and rate: "0 < rate" and el: "ln (dstart / eps) / rate \<le> elapsed"
  shows "x \<le> eps"
proof (cases "dstart = 0")
  case True
  with x eps show ?thesis by simp
next
  case False
  with dstart have pos: "0 < dstart" by simp
  from el rate have "ln (dstart / eps) \<le> rate * elapsed"
    by (simp add: pos_divide_le_eq mult.commute)
  then have "exp (ln (dstart / eps)) \<le> exp (rate * elapsed)"
    by (simp only: exp_le_cancel_iff)
  then have "dstart / eps \<le> exp (rate * elapsed)"
    using pos eps by simp
  then have "dstart \<le> exp (rate * elapsed) * eps"
    using eps by (simp add: pos_divide_le_eq)
  then have "exp (- (rate * elapsed)) * dstart \<le> exp (- (rate * elapsed)) * (exp (rate * elapsed) * eps)"
    by (rule mult_left_mono) simp
  also have "\<dots> = eps"
    by (simp add: exp_minus)
  finally show ?thesis using x by simp
qed

text \<open>
  Claim C8, as the code has it.  Take any sequence of frames during which the
  target pose is constant and every frame has a positive duration with
  \<open>rate * delta \<le> 1\<close> (at most 125 ms while a photo is selected or in
  full-screen, at most 500 ms in formation).  Then every frame is processed, no
  frame increases the distance of the live position to the target position, and
  after the frames the distance is at most \<open>exp (- rate * elapsed)\<close> times the
  initial distance, \<open>elapsed\<close> being the sum of the durations: for every
  \<open>eps > 0\<close> it is at most \<open>eps\<close> once the elapsed time reaches
  \<open>ln (initial distance / eps) / rate\<close>.  The same bound holds for the scale.
  The rotation is advanced by the engine's \<open>slerp\<close>, about which the
  repository says nothing.
\<close>

theorem interpolation_converges:
  assumes "\<forall>(st, d) \<in> set frames.
             targetPose eng data isFullScreen selectedPhoto aspectRatio g st = T
             \<and> 0 < d \<and> lerpSpeed isFullScreen selectedPhoto * d \<le> 1"
  shows "(let rate = lerpSpeed isFullScreen selectedPhoto;
              elapsed = sum_list (map snd frames);
              live = (\<lambda>fr. the (runFrames eng data isFullScreen selectedPhoto aspectRatio (Some g) fr));
              dist = (\<lambda>fr. distanceTo (position (live fr)) (fst T))
          in runFrames eng data isFullScreen selectedPhoto aspectRatio (Some g) frames \<noteq> None
             \<and> (\<forall>k < length frames. dist (take (Suc k) frames) \<le> dist (take k frames))
             \<and> dist frames \<le> exp (- (rate * elapsed)) * distanceTo (position g) (fst T)
             \<and> (\<forall>eps > 0. ln (distanceTo (position g) (fst T) / eps) / rate \<le> elapsed
                   \<longrightarrow> dist frames \<le> eps)
             \<and> distanceTo (scale (live frames)) (snd (snd T))
                 \<le> exp (- (rate * elapsed)) * distanceTo (scale g) (snd (snd T)))"
proof -
  let ?r = "lerpSpeed isFullScreen selectedPhoto"
  let ?run = "runFrames eng data isFullScreen selectedPhoto aspectRatio (Some g)"
  let ?dist = "\<lambda>fr. distanceTo (position (the (?run fr))) (fst T)"
  from runFrames_bound [OF assms] obtain g' where
    run: "?run frames = Some g'"
    and p: "distanceTo (position g') (fst T)
             \<le> exp (- (?r * sum_list (map snd frames))) * distanceTo (position g) (fst T)"
    and s: "distanceTo (scale g') (snd (snd T))
             \<le> exp (- (?r * sum_list (map snd frames))) * distanceTo (scale g) (snd (snd T))"
    by blast
  have mono: "?dist (take (Suc k) frames) \<le> ?dist (take k frames)" if k: "k < length frames" for k
  proof -
    obtain st d where f: "frames ! k = (st, d)" by (cases "frames ! k")
    have mem: "(st, d) \<in> set frames"
      using k f by (metis nth_mem)
    with assms have T: "targetPose eng data isFullScreen selectedPhoto aspectRatio g st = T"
      and d: "0 < d" "?r * d \<le> 1"
      by auto
    have "\<forall>(st, d) \<in> set (take k frames).
             targetPose eng data isFullScreen selectedPhoto aspectRatio g st = T
             \<and> 0 < d \<and> ?r * d \<le> 1"
      using assms by (meson in_set_takeD)
    from runFrames_bound [OF this] obtain gk where
      gk: "?run (take k frames) = Some gk" and par: "parent gk = parent g"
      by blast
    obtain gk' where gk': "useFrame eng data isFullScreen selectedPhoto aspectRatio (Some gk) st d = Some gk'"
      by (simp add: useFrame_Some)
    have "?run (take (Suc k) frames) = Some gk'"
      using k f gk gk' by (simp add: take_Suc_conv_app_nth runFrames_snoc)
    moreover have "distanceTo (position gk') (fst T) \<le> distanceTo (position gk) (fst T)"
      using T d gk' by (intro useFrame_contracts(3)) (simp_all add: targetPose_parent [OF par])
    ultimately show ?thesis
      using gk by simp
  qed
  have eps: "?dist frames \<le> eps"
    if e: "0 < eps"
      and l: "ln (distanceTo (position g) (fst T) / eps) / ?r \<le> sum_list (map snd frames)" for eps
  proof (rule exp_bound_epsilon)
    show "?dist frames \<le> exp (- (?r * sum_list (map snd frames))) * distanceTo (position g) (fst T)"
      using p run by simp
    show "0 \<le> distanceTo (position g) (fst T)" by (rule distanceTo_nonneg)
    show "0 < eps" by (rule e)
    show "0 < ?r" by (rule lerpSpeed_pos)
    show "ln (distanceTo (position g) (fst T) / eps) / ?r \<le> sum_list (map snd frames)" by (rule l)
  qed
  have c1: "?run frames \<noteq> None" using run by simp
  have c3: "?dist frames \<le> exp (- (?r * sum_list (map snd frames))) * distanceTo (position g) (fst T)"
    using p run by simp
  have c5: "distanceTo (scale (the (?run frames))) (snd (snd T))
      \<le> exp (- (?r * sum_list (map snd frames))) * distanceTo (scale g) (snd (snd T))"
    using s run by simp
  show ?thesis
    unfolding Let_def
    by (intro conjI allI impI c1 c3 c5 mono eps)
qed

lemma distanceTo_z: "distanceTo (Vector3 0 0 a) (Vector3 0 0 b) = \<bar>a - b\<bar>"
  by (simp add: distanceTo_def)

lemma still_scene_selected_pose:
  "targetPose still_engine (photoData (\<lambda>n. 0) [''a.png''] ! 0) False (Some ''a.png'') 1
        g (still_state t)
      = (toParentSpace still_engine g (Vector3 0 0 5), Quaternion 0 0 0 1, Vector3 5 5 5)"
  by (simp add: targetPose_def isSelected_def selectedTarget_def
        photoData_eq photoItem_def still_state_def still_camera_def still_engine_def
        cameraForward_def add_def multiplyScalar_def frameHeight_def
        photoHeight_def photoWidth_def tan_45 Let_def)

lemma still_toParentSpace: "toParentSpace still_engine g p = p"
  by (simp add: toParentSpace_def still_engine_def split: option.splits)

theorem interpolation_converges_witness:
  "distanceTo (position (the (runFrames still_engine (photoData (\<lambda>n. 0) [''a.png''] ! 0) False
        (Some ''a.png'') 1 (Some origin_group) [(still_state 0, 1 / 10), (still_state (1 / 10), 1 / 20)])))
      (Vector3 0 0 5)
    \<le> exp (- (8 * (1 / 10 + 1 / 20))) * distanceTo (position origin_group) (Vector3 0 0 5)"
proof -
  have h: "\<forall>(st, d) \<in> set [(still_state 0, 1 / 10), (still_state (1 / 10), 1 / 20)].
      targetPose still_engine (photoData (\<lambda>n. 0) [''a.png''] ! 0) False (Some ''a.png'') 1
        origin_group st = (Vector3 0 0 5, Quaternion 0 0 0 1, Vector3 5 5 5)
      \<and> 0 < d \<and> lerpSpeed False (Some ''a.png'') * d \<le> 1"
    by (simp add: still_scene_selected_pose still_toParentSpace lerpSpeed_def isDetailMode_def)
  have r: "lerpSpeed False (Some ''a.png'') = 8"
    by (simp add: lerpSpeed_def isDetailMode_def)
  show ?thesis
    using interpolation_converges [OF h] unfolding Let_def r by simp
qed

text \<open>
  Without the bound on the frame duration the claim fails: while a photo is
  selected (rate 8) and the target stays at \<open>(0, 0, 5)\<close>, two frames of half a
  second take the selected item from distance 5 to distance 15 and then to
  distance 45.
\<close>

theorem interpolation_converges_counterexample:
  "targetPose still_engine (photoData (\<lambda>n. 0) [''a.png''] ! 0) False (Some ''a.png'') 1
        origin_group (still_state 0)
     = (Vector3 0 0 5, Quaternion 0 0 0 1, Vector3 5 5 5)
   \<and> distanceTo (position origin_group) (Vector3 0 0 5) = 5
   \<and> distanceTo (position (the (runFrames still_engine (photoData (\<lambda>n. 0) [''a.png''] ! 0) False
        (Some ''a.png'') 1 (Some origin_group) [(still_state 0, 1 / 2)]))) (Vector3 0 0 5) = 15
   \<and> distanceTo (position (the (runFrames still_engine (photoData (\<lambda>n. 0) [''a.png''] ! 0) False
        (Some ''a.png'') 1 (Some origin_group) [(still_state 0, 1 / 2), (still_state (1 / 2), 1 / 2)])))
        (Vector3 0 0 5) = 45"
proof -
  have r: "lerpSpeed False (Some ''a.png'') = 8"
    by (simp add: lerpSpeed_def isDetailMode_def)
  have p0: "position origin_group = Vector3 0 0 0"
    by (simp add: origin_group_def)
  show ?thesis
    by (simp add: still_scene_selected_pose still_toParentSpace useFrame_Some r p0 lerp_def distanceTo_z)
qed

subsection \<open>Snow\<close>

lemma arctan_le_self_nonneg:
  fixes x :: real
  assumes "0 \<le> x"
  shows "arctan x \<le> x"
proof -
  have "0 - arctan 0 \<le> x - arctan x"
  proof (rule DERIV_nonneg_imp_nondecreasing [of 0 x "\<lambda>u. u - arctan u"])
    show "0 \<le> x" by (rule assms)
  next
    fix u :: real
    assume "0 \<le> u" "u \<le> x"
    have "((\<lambda>u. u - arctan u) has_real_derivative (1 - inverse (1 + u\<^sup>2))) (at u)"
      by (auto intro!: derivative_eq_intros)
    moreover have "0 \<le> 1 - inverse (1 + u\<^sup>2)"
    proof -
      have "1 \<le> 1 + u\<^sup>2" by simp
      then have "inverse (1 + u\<^sup>2) \<le> 1"
        by (simp add: inverse_le_1_iff)
      then show ?thesis by simp
    qed
    ultimately show "\<exists>y. ((\<lambda>u. u - arctan u) has_real_derivative y) (at u) \<and> 0 \<le> y"
      by blast
  qed
  then show ?thesis by simp
qed

lemma pi_upper: "pi < 10 / 3"
proof -
  have "arctan (1 / 7) \<le> 1 / 7" "arctan (3 / 79) \<le> 3 / 79"
    by (rule arctan_le_self_nonneg, simp)+
  then have "5 * arctan (1 / 7) + 2 * arctan (3 / 79) \<le> 5 * (1 / 7) + 2 * (3 / 79)"
    by linarith
  then have "pi / 4 \<le> 5 * (1 / 7) + 2 * (3 / 79)"
    by (simp only: machin_Euler)
  then show ?thesis by simp
qed

lemma pi_lower: "3 \<le> pi"
proof -
  have "sin (pi / 6) \<le> pi / 6"
    by (rule sin_x_le_x) simp
  then show ?thesis by (simp add: sin_30)
qed

lemma sin_20_neq_0: "sin (20::real) \<noteq> 0"
proof
  assume "sin (20::real) = 0"
  then obtain i :: int where i: "20 = of_int i * pi"
    by (auto simp: sin_zero_iff_int2)
  show False
  proof (cases "i \<le> 6")
    case True
    then have "(of_int i :: real) \<le> 6" by simp
    then have "of_int i * pi \<le> 6 * pi"
      by (rule mult_right_mono) simp
    with i pi_upper show False by simp
  next
    case False
    then have "7 \<le> i" by simp
    then have "(7::real) \<le> of_int i" by simp
    then have "7 * pi \<le> of_int i * pi"
      by (rule mult_right_mono) simp
    with i pi_lower show False by simp
  qed
qed

lemma glsl_mod_range:
  assumes "0 < b"
  shows "0 \<le> glsl_mod a b" and "glsl_mod a b < b"
proof -
  have "of_int \<lfloor>a / b\<rfloor> \<le> a / b"
    by (rule of_int_floor_le)
  with assms have "of_int \<lfloor>a / b\<rfloor> * b \<le> a"
    by (simp only: pos_le_divide_eq)
  then show "0 \<le> glsl_mod a b"
    by (simp add: glsl_mod_def mult.commute)
  have "a / b < of_int \<lfloor>a / b\<rfloor> + 1"
    using floor_correct [of "a / b"] by simp
  with assms have "a < (of_int \<lfloor>a / b\<rfloor> + 1) * b"
    by (simp only: pos_divide_less_eq)
  then show "glsl_mod a b < b"
    by (simp add: glsl_mod_def algebra_simps)
qed

lemma snow_y_range:
  assumes "0 < uHeight"
  shows "- uHeight / 2 \<le> snow_y uTime uHeight uSpeed aRandom y0"
    and "snow_y uTime uHeight uSpeed aRandom y0 < uHeight / 2"
  using glsl_mod_range [OF assms, of "y0 - uTime * uSpeed * (0.5 + aRandom * 0.5) - - uHeight / 2"]
  by (simp_all add: snow_y_def Let_def)

lemma vertexShader_fst:
  "fst (vertexShader uTime uHeight uSpeed aRandom p) =
     Vector3 (vx p + sin (uTime * 0.5 + snow_y uTime uHeight uSpeed aRandom (vy p) * 0.5
                          + aRandom * 10) * 0.5)
             (snow_y uTime uHeight uSpeed aRandom (vy p))
             (vz p + cos (uTime * 0.3 + snow_y uTime uHeight uSpeed aRandom (vy p) * 0.5
                          + aRandom * 10) * 0.5)"
  by (simp add: vertexShader_def Let_def)

lemma snow_y_isCont:
  assumes "(y0 - uTime * uSpeed * (0.5 + aRandom * 0.5) + uHeight / 2) / uHeight \<notin> \<int>"
  shows "isCont (\<lambda>t. snow_y t uHeight uSpeed aRandom y0) uTime"
proof -
  let ?u = "\<lambda>t. (y0 - t * uSpeed * (0.5 + aRandom * 0.5) - - uHeight / 2) / uHeight"
  have nz: "uHeight \<noteq> 0"
    using assms by auto
  have u: "(?u \<longlongrightarrow> ?u uTime) (at uTime)"
    by (intro tendsto_intros nz)
  have "((\<lambda>t. of_int \<lfloor>?u t\<rfloor> :: real) \<longlongrightarrow> of_int \<lfloor>?u uTime\<rfloor>) (at uTime)"
    using u by (rule tendsto_of_int_floor) (use assms in simp)
  then have fl: "isCont (\<lambda>t. of_int \<lfloor>?u t\<rfloor> :: real) uTime"
    by (simp only: isCont_def)
  show ?thesis
    unfolding snow_y_def glsl_mod_def Let_def
    by (intro continuous_intros fl)
qed

lemma snow_y_wrap_instant:
  assumes "0 < uHeight"
    and "(y0 - uTime * uSpeed * (0.5 + aRandom * 0.5) + uHeight / 2) / uHeight \<in> \<int>"
  shows "snow_y uTime uHeight uSpeed aRandom y0 = - uHeight / 2"
proof -
  let ?q = "(y0 - uTime * uSpeed * (0.5 + aRandom * 0.5) + uHeight / 2) / uHeight"
  have "of_int \<lfloor>?q\<rfloor> = ?q"
    using assms(2) by (simp only: of_int_floor)
  then have "uHeight * of_int \<lfloor>?q\<rfloor> = uHeight * ?q"
    by (simp only:)
  also have "\<dots> = y0 - uTime * uSpeed * (0.5 + aRandom * 0.5) + uHeight / 2"
    using assms(1) by simp
  finally show ?thesis
    by (simp add: snow_y_def glsl_mod_def Let_def)
qed

text \<open>
  Claim C4, as the code has it.  For a positive height, every particle, initial
  position and time, the wrapped vertical position lies within
  \<open>[- height / 2, height / 2]\<close>, and the particle is never further than 0.5
  from its initial \<open>x\<close> and from its initial \<open>z\<close>.  The horizontal
  displacement is computed from the wrapped vertical position: as a function of
  time it is continuous at every instant that is not a wrap instant, and at a
  wrap instant the particle is at the bottom of the extent with opacity zero.
\<close>

theorem snow_wrap:
  assumes "0 < uHeight"
  shows "(let pos = fst (vertexShader uTime uHeight uSpeed aRandom p)
          in - uHeight / 2 \<le> vy pos \<and> vy pos \<le> uHeight / 2
             \<and> \<bar>vx pos - vx p\<bar> \<le> 1 / 2 \<and> \<bar>vz pos - vz p\<bar> \<le> 1 / 2)
     \<and> ((vy p - uTime * uSpeed * (0.5 + aRandom * 0.5) + uHeight / 2) / uHeight \<notin> \<int> \<longrightarrow>
          isCont (\<lambda>t. vx (fst (vertexShader t uHeight uSpeed aRandom p))) uTime
          \<and> isCont (\<lambda>t. vz (fst (vertexShader t uHeight uSpeed aRandom p))) uTime)
     \<and> ((vy p - uTime * uSpeed * (0.5 + aRandom * 0.5) + uHeight / 2) / uHeight \<in> \<int> \<longrightarrow>
          vy (fst (vertexShader uTime uHeight uSpeed aRandom p)) = - uHeight / 2
          \<and> snd (vertexShader uTime uHeight uSpeed aRandom p) = 0)"
proof -
  have sb: "\<bar>sin a * 0.5\<bar> \<le> 1 / 2" "\<bar>cos a * 0.5\<bar> \<le> 1 / 2" for a :: real
    by (simp_all add: abs_mult)
  have A: "(let pos = fst (vertexShader uTime uHeight uSpeed aRandom p)
          in - uHeight / 2 \<le> vy pos \<and> vy pos \<le> uHeight / 2
             \<and> \<bar>vx pos - vx p\<bar> \<le> 1 / 2 \<and> \<bar>vz pos - vz p\<bar> \<le> 1 / 2)"
    using snow_y_range [OF assms, of uTime uSpeed aRandom "vy p"] sb
    by (simp add: vertexShader_fst Let_def less_imp_le)
  have B: "isCont (\<lambda>t. vx (fst (vertexShader t uHeight uSpeed aRandom p))) uTime
          \<and> isCont (\<lambda>t. vz (fst (vertexShader t uHeight uSpeed aRandom p))) uTime"
    if "(vy p - uTime * uSpeed * (0.5 + aRandom * 0.5) + uHeight / 2) / uHeight \<notin> \<int>"
    unfolding vertexShader_fst Vector3.sel
    by (intro conjI continuous_intros snow_y_isCont that)
  have C: "vy (fst (vertexShader uTime uHeight uSpeed aRandom p)) = - uHeight / 2
          \<and> snd (vertexShader uTime uHeight uSpeed aRandom p) = 0"
    if "(vy p - uTime * uSpeed * (0.5 + aRandom * 0.5) + uHeight / 2) / uHeight \<in> \<int>"
    using snow_y_wrap_instant [OF assms that]
    by (simp add: vertexShader_def Let_def smoothstep_def clamp_def)
  show ?thesis using A B C by blast
qed

theorem snow_wrap_witness:
  "(0::real) < 40
   \<and> vy (fst (vertexShader 20 40 2 0 (Vector3 0 0 0))) = - 20
   \<and> snd (vertexShader 20 40 2 0 (Vector3 0 0 0)) = 0
   \<and> isCont (\<lambda>t. vx (fst (vertexShader t 40 2 0 (Vector3 0 0 0)))) 10"
proof -
  have a: "(1 / 4 :: real) \<notin> \<int>"
    using frac_eq_0_iff [of "1 / 4 :: real"] by (simp add: frac_def)
  have b: "(0 :: real) \<in> \<int>" by simp
  show ?thesis
    using snow_wrap [of 40 20 2 0 "Vector3 0 0 0"] snow_wrap [of 40 10 2 0 "Vector3 0 0 0"] a b
    by simp
qed

text \<open>
  Across a wrap instant the horizontal position jumps.  With the component's
  defaults (height 40, speed 2), the particle that starts at the origin with
  random value 0 wraps at time 20: its \<open>x\<close> is 0 up to that instant and
  \<open>sin 20 / 2\<close> right after it.
\<close>

theorem snow_wrap_counterexample:
  "\<not> isCont (\<lambda>t. vx (fst (vertexShader t 40 2 0 (Vector3 0 0 0)))) 20"
proof
  let ?f = "\<lambda>t. vx (fst (vertexShader t 40 2 0 (Vector3 0 0 0)))"
  assume "isCont ?f 20"
  then have "(?f \<longlongrightarrow> ?f 20) (at 20)"
    by (simp only: isCont_def)
  then have lim0: "(?f \<longlongrightarrow> ?f 20) (at_right 20)"
    by (rule filterlim_mono) (simp_all add: at_le)
  have at20: "?f 20 = 0"
    by (simp add: vertexShader_fst snow_y_def glsl_mod_def Let_def)
  have after: "?f t = sin 20 * 0.5" if "t \<in> {20<..<60}" for t :: real
  proof -
    have "\<lfloor>(20 - t) / 40\<rfloor> = - 1"
      using that by (simp add: floor_eq_iff)
    then have eq: "snow_y t 40 2 0 0 = 40 - t"
      by (simp add: snow_y_def glsl_mod_def Let_def)
    have arg: "t * 0.5 + (40 - t) * 0.5 + 0 * 10 = (20::real)"
      by (simp add: field_simps)
    show ?thesis
      unfolding vertexShader_fst Vector3.sel eq arg by simp
  qed
  have "eventually (\<lambda>t. t \<in> {20<..<60}) (at_right (20::real))"
    by (rule eventually_at_right_real) simp
  then have "eventually (\<lambda>t. ?f t = sin 20 * 0.5) (at_right 20)"
    by (rule eventually_mono) (rule after)
  then have lim1: "(?f \<longlongrightarrow> sin 20 * 0.5) (at_right 20)"
    by (rule tendsto_eventually)
  have "?f 20 = sin 20 * 0.5"
    using lim0 lim1 by (rule tendsto_unique [OF trivial_limit_at_right_real])
  with at20 sin_20_neq_0 show False by simp
qed

end
